theory Spec2Isabelle
  imports Complex_Main "HOL-Library.Word"
begin

section \<open>Values crossing the C ABI\<close>

text \<open>
  A \<open>void *\<close> or function pointer is either the null pointer or an address. A C
  \<open>int\<close> is a 32-bit word, read as two's complement by \<open>sint\<close>. A \<open>double\<close> is
  modelled by the real number it denotes; the program itself only passes the
  literals \<open>1.5\<close> and \<open>2.5\<close> and never does arithmetic on doubles.
\<close>

datatype ptr = NULL | Addr nat

type_synonym c_int = "32 word"
type_synonym c_double = real

text \<open>
  The binding and visibility flags of \<open>dlfcn.h\<close>. A mode is a bitwise or of flags,
  which is the set of the flags it holds.
\<close>

datatype rtld_flag = RTLD_LAZY | RTLD_NOW | RTLD_GLOBAL | RTLD_LOCAL

section \<open>The platform\<close>

text \<open>
  The dynamic loader and the code of the loaded module are outside the program. A
  platform fixes what they answer:
  \<^item> \<open>loader_open path mode\<close> is \<open>Inl msg\<close> when loading fails with the diagnostic
    \<open>msg\<close> and \<open>Inr h\<close> when it yields the handle at address \<open>h\<close>;
  \<^item> \<open>loader_sym handle name\<close> is the address returned by the lookup (which may be
    null for a symbol whose value is the null address) together with the
    diagnostic raised by the lookup, if any;
  \<^item> \<open>loader_close handle\<close> is the diagnostic raised by closing, if any;
  \<^item> \<open>code_int a\<close> and \<open>code_double a\<close> are what the code at address \<open>a\<close> returns
    when called as \<open>int (int, int)\<close> and as \<open>double (double, double)\<close>.
  The program makes every loader call at most once with the same arguments, so
  answers that are functions of the arguments cover every behaviour of a loader
  whose answers depend on its history. The code at an address that is not null is
  taken to return when called; what it returns is up to the platform.
\<close>

record platform =
  loader_open :: "string \<Rightarrow> rtld_flag set \<Rightarrow> string + nat"
  loader_sym :: "ptr \<Rightarrow> string \<Rightarrow> ptr \<times> string option"
  loader_close :: "ptr \<Rightarrow> string option"
  code_int :: "nat \<Rightarrow> c_int \<Rightarrow> c_int \<Rightarrow> c_int"
  code_double :: "nat \<Rightarrow> c_double \<Rightarrow> c_double \<Rightarrow> c_double"

section \<open>The process state\<close>

text \<open>
  What the program calls is logged in order. A \<open>Dlsym\<close> event also records the
  loader's error indicator as it was when the lookup was entered.
\<close>

datatype event =
    Dlopen string "rtld_flag set" ptr
  | Dlerror "string option"
  | Dlsym ptr string "string option" ptr
  | Dlclose ptr c_int
  | Call_int ptr c_int c_int c_int
  | Call_double ptr c_double c_double c_double

text \<open>What is inserted into a stream with \<open><<\<close>.\<close>

datatype item = Str string | Int_val c_int | Double_val c_double | Endl

record proc =
  dl_error :: "string option"
  cout :: "item list"
  cerr :: "item list"
  trace :: "event list"

datatype outcome = Exit c_int | Undefined_behaviour

definition log :: "event \<Rightarrow> proc \<Rightarrow> proc" where
  "log ev s = s\<lparr>trace := trace s @ [ev]\<rparr>"

definition write_cout :: "item list \<Rightarrow> proc \<Rightarrow> proc" where
  "write_cout xs s = s\<lparr>cout := cout s @ xs\<rparr>"

definition write_cerr :: "item list \<Rightarrow> proc \<Rightarrow> proc" where
  "write_cerr xs s = s\<lparr>cerr := cerr s @ xs\<rparr>"

section \<open>The calls of \<open>dlfcn.h\<close>\<close>

text \<open>
  A failing call leaves its diagnostic in the error indicator; a successful call
  leaves the indicator as it was. \<open>dlerror\<close> returns the indicator and clears it.
\<close>

definition dlopen :: "platform \<Rightarrow> string \<Rightarrow> rtld_flag set \<Rightarrow> proc \<Rightarrow> ptr \<times> proc" where
  "dlopen p path mode s =
     (case loader_open p path mode of
        Inl msg \<Rightarrow> (NULL, log (Dlopen path mode NULL) (s\<lparr>dl_error := Some msg\<rparr>))
      | Inr h \<Rightarrow> (Addr h, log (Dlopen path mode (Addr h)) s))"

definition dlerror :: "proc \<Rightarrow> string option \<times> proc" where
  "dlerror s = (dl_error s, log (Dlerror (dl_error s)) (s\<lparr>dl_error := None\<rparr>))"

definition dlsym :: "platform \<Rightarrow> ptr \<Rightarrow> string \<Rightarrow> proc \<Rightarrow> ptr \<times> proc" where
  "dlsym p handle name s =
     (case loader_sym p handle name of
        (a, Some msg) \<Rightarrow> (a, log (Dlsym handle name (dl_error s) a) (s\<lparr>dl_error := Some msg\<rparr>))
      | (a, None) \<Rightarrow> (a, log (Dlsym handle name (dl_error s) a) s))"

definition dlclose :: "platform \<Rightarrow> ptr \<Rightarrow> proc \<Rightarrow> c_int \<times> proc" where
  "dlclose p handle s =
     (case loader_close p handle of
        Some msg \<Rightarrow> (- 1, log (Dlclose handle (- 1)) (s\<lparr>dl_error := Some msg\<rparr>))
      | None \<Rightarrow> (0, log (Dlclose handle 0) s))"

section \<open>Calls through resolved function pointers\<close>

text \<open>Calling through a null function pointer is undefined: no result.\<close>

definition call_int :: "platform \<Rightarrow> ptr \<Rightarrow> c_int \<Rightarrow> c_int \<Rightarrow> proc \<Rightarrow> (c_int \<times> proc) option" where
  "call_int p f a b s =
     (case f of
        NULL \<Rightarrow> None
      | Addr fa \<Rightarrow> Some (code_int p fa a b, log (Call_int f a b (code_int p fa a b)) s))"

definition call_double ::
  "platform \<Rightarrow> ptr \<Rightarrow> c_double \<Rightarrow> c_double \<Rightarrow> proc \<Rightarrow> (c_double \<times> proc) option" where
  "call_double p f a b s =
     (case f of
        NULL \<Rightarrow> None
      | Addr fa \<Rightarrow> Some (code_double p fa a b, log (Call_double f a b (code_double p fa a b)) s))"

section \<open>\<open>main\<close> of call_mymath_linux.cpp\<close>

text \<open>
  The program on a platform \<open>p\<close>, started with the loader's error indicator
  holding \<open>e0\<close>. Inserting a null \<open>char *\<close> into a stream is undefined, as is a call
  through a null function pointer; the state then is the one reached so far.
\<close>

definition main :: "platform \<Rightarrow> string option \<Rightarrow> outcome \<times> proc" where
  "main p e0 =
     (let s0 = \<lparr>dl_error = e0, cout = [], cerr = [], trace = []\<rparr>;
          (hpy, s1) = dlopen p ''libpython3.12.so'' ({RTLD_NOW} \<union> {RTLD_GLOBAL}) s0
      in if hpy = NULL then
           (let (e, s2) = dlerror (write_cerr [Str ''dlopen libpython error: ''] s1)
            in case e of
                 None \<Rightarrow> (Undefined_behaviour, s2)
               | Some msg \<Rightarrow> (Exit 1, write_cerr [Str msg, Endl] s2))
         else
           let (handle, s2) = dlopen p ''./mymath.cpython-312-x86_64-linux-gnu.so'' {RTLD_NOW} s1
           in if handle = NULL then
                (let (e, s3) = dlerror (write_cerr [Str ''dlopen error: ''] s2)
                 in case e of
                      None \<Rightarrow> (Undefined_behaviour, s3)
                    | Some msg \<Rightarrow> (Exit 1, write_cerr [Str msg, Endl] s3))
              else
                let (stale, s3) = dlerror s2;
                    (C_add_int_func, s4) = dlsym p handle ''C_add_int'' s3;
                    (err, s5) = dlerror s4
                in case err of
                     Some msg \<Rightarrow>
                       (let s6 = write_cerr [Str ''dlsym(C_add_int) error: '', Str msg, Endl] s5;
                            (rc, s7) = dlclose p handle s6
                        in (Exit 1, s7))
                   | None \<Rightarrow>
                       let (C_add_double_func, s6) = dlsym p handle ''C_add_double'' s5;
                           (err, s7) = dlerror s6
                       in case err of
                            Some msg \<Rightarrow>
                              (let s8 = write_cerr
                                     [Str ''dlsym(C_add_double) error: '', Str msg, Endl] s7;
                                   (rc, s9) = dlclose p handle s8
                               in (Exit 1, s9))
                          | None \<Rightarrow>
                              let s8 = write_cout [Str ''C_add_int(2, 3) = ''] s7
                              in case call_int p C_add_int_func 2 3 s8 of
                                   None \<Rightarrow> (Undefined_behaviour, s8)
                                 | Some (r1, s9) \<Rightarrow>
                                     let s10 = write_cout
                                           [Int_val r1, Endl, Str ''C_add_double(1.5, 2.5) = ''] s9
                                     in case call_double p C_add_double_func 1.5 2.5 s10 of
                                          None \<Rightarrow> (Undefined_behaviour, s10)
                                        | Some (r2, s11) \<Rightarrow>
                                            let s12 = write_cout [Double_val r2, Endl] s11;
                                                (rc, s13) = dlclose p handle s12
                                            in (Exit 0, s13))"

text \<open>The two paths and modes the program passes to \<open>dlopen\<close>.\<close>

abbreviation py_path :: string where
  "py_path \<equiv> ''libpython3.12.so''"

abbreviation py_mode :: "rtld_flag set" where
  "py_mode \<equiv> {RTLD_NOW, RTLD_GLOBAL}"

abbreviation mod_path :: string where
  "mod_path \<equiv> ''./mymath.cpython-312-x86_64-linux-gnu.so''"

abbreviation mod_mode :: "rtld_flag set" where
  "mod_mode \<equiv> {RTLD_NOW}"

section \<open>The exported functions of the module\<close>

text \<open>
  Modelled from the spec: the body of \<open>C_add_int\<close>, which mymath_c_api.h only
  declares (\<open>int C_add_int(int a, int b)\<close>). The spec's contract is "returns sum".
\<close>

definition C_add_int :: "c_int \<Rightarrow> c_int \<Rightarrow> c_int" where
  "C_add_int a b = a + b"

text \<open>
  Modelled from the spec: the body of \<open>C_add_double\<close>, which mymath_c_api.h only
  declares (\<open>double C_add_double(double a, double b)\<close>). The spec's contract is
  "returns sum"; the sum is the exact one, which is the sum of the doubles whenever
  it is representable.
\<close>

definition C_add_double :: "c_double \<Rightarrow> c_double \<Rightarrow> c_double" where
  "C_add_double a b = a + b"

text \<open>
  Modelled from the spec: the body of \<open>C_dot\<close>, which mymath_c_api.h only declares
  (\<open>double C_dot(double *x, double *y, int length)\<close>). The spec's contract is
  "returns dot product of first \<open>length\<close> elements of \<open>x\<close> and \<open>y\<close>; caller
  guarantees both buffers have at least \<open>length\<close> valid elements". A buffer is the
  list of its valid elements; where the caller's guarantee fails, or the length is
  negative, the contract gives no result.
\<close>

definition C_dot :: "c_double list \<Rightarrow> c_double list \<Rightarrow> c_int \<Rightarrow> c_double option" where
  "C_dot x y len =
     (if 0 \<le> sint len \<and> nat (sint len) \<le> length x \<and> nat (sint len) \<le> length y
      then Some (sum_list (map2 (*) (take (nat (sint len)) x) (take (nat (sint len)) y)))
      else None)"

section \<open>Reading a trace\<close>

text \<open>The symbol names looked up, in order.\<close>

fun lookup_names :: "event list \<Rightarrow> string list" where
  "lookup_names [] = []"
| "lookup_names (Dlsym h name e a # tr) = name # lookup_names tr"
| "lookup_names (ev # tr) = lookup_names tr"

text \<open>The handles released, in order.\<close>

fun releases :: "event list \<Rightarrow> ptr list" where
  "releases [] = []"
| "releases (Dlclose h rc # tr) = h # releases tr"
| "releases (ev # tr) = releases tr"

text \<open>The handles passed to \<open>dlsym\<close> or \<open>dlclose\<close>, in order.\<close>

fun handles_used :: "event list \<Rightarrow> ptr list" where
  "handles_used [] = []"
| "handles_used (Dlsym h name e a # tr) = h # handles_used tr"
| "handles_used (Dlclose h rc # tr) = h # handles_used tr"
| "handles_used (ev # tr) = handles_used tr"

text \<open>The loads made, in order: path, mode and the handle returned.\<close>

fun opens :: "event list \<Rightarrow> (string \<times> rtld_flag set \<times> ptr) list" where
  "opens [] = []"
| "opens (Dlopen path mode h # tr) = (path, mode, h) # opens tr"
| "opens (ev # tr) = opens tr"

text \<open>The calls through resolved function pointers, in order.\<close>

fun calls :: "event list \<Rightarrow> event list" where
  "calls [] = []"
| "calls (Call_int f a b r # tr) = Call_int f a b r # calls tr"
| "calls (Call_double f a b r # tr) = Call_double f a b r # calls tr"
| "calls (ev # tr) = calls tr"

text \<open>The values \<open>dlerror\<close> returned, in order.\<close>

fun error_reads :: "event list \<Rightarrow> string option list" where
  "error_reads [] = []"
| "error_reads (Dlerror r # tr) = r # error_reads tr"
| "error_reads (ev # tr) = error_reads tr"

fun is_Dlsym :: "event \<Rightarrow> bool" where
  "is_Dlsym (Dlsym h name e a) = True"
| "is_Dlsym ev = False"

fun is_Dlerror :: "event \<Rightarrow> bool" where
  "is_Dlerror (Dlerror r) = True"
| "is_Dlerror ev = False"

text \<open>The results of the calls through resolved function pointers, as stream items, in order.\<close>

fun call_results :: "event list \<Rightarrow> item list" where
  "call_results [] = []"
| "call_results (Call_int f a b r # tr) = Int_val r # call_results tr"
| "call_results (Call_double f a b r # tr) = Double_val r # call_results tr"
| "call_results (ev # tr) = call_results tr"

text \<open>The values inserted into a stream, in order: what is neither text nor an end of line.\<close>

fun values_written :: "item list \<Rightarrow> item list" where
  "values_written [] = []"
| "values_written (Int_val r # xs) = Int_val r # values_written xs"
| "values_written (Double_val r # xs) = Double_val r # values_written xs"
| "values_written (x # xs) = values_written xs"

text \<open>The texts inserted into a stream, in order.\<close>

fun texts_written :: "item list \<Rightarrow> string list" where
  "texts_written [] = []"
| "texts_written (Str t # xs) = t # texts_written xs"
| "texts_written (x # xs) = texts_written xs"

text \<open>The number of lines ended in a stream.\<close>

definition line_count :: "item list \<Rightarrow> nat" where
  "line_count xs = length (filter (\<lambda>x. x = Endl) xs)"

section \<open>What a platform answers to the program\<close>

text \<open>
  The diagnostic of the first load or symbol resolution that fails on the
  platform, in the order the program makes them: the prerequisite library, the
  module, \<open>C_add_int\<close>, \<open>C_add_double\<close>. It is \<open>None\<close> when every load and every
  symbol resolution succeeds.
\<close>

definition first_failure :: "platform \<Rightarrow> string option" where
  "first_failure p =
     (case loader_open p py_path py_mode of
        Inl msg \<Rightarrow> Some msg
      | Inr h1 \<Rightarrow>
          (case loader_open p mod_path mod_mode of
             Inl msg \<Rightarrow> Some msg
           | Inr h2 \<Rightarrow>
               (case snd (loader_sym p (Addr h2) ''C_add_int'') of
                  Some msg \<Rightarrow> Some msg
                | None \<Rightarrow> snd (loader_sym p (Addr h2) ''C_add_double''))))"

text \<open>Both symbols resolve to addresses other than the null pointer.\<close>

definition resolved_callable :: "platform \<Rightarrow> bool" where
  "resolved_callable p =
     (case loader_open p mod_path mod_mode of
        Inl msg \<Rightarrow> False
      | Inr h2 \<Rightarrow>
          fst (loader_sym p (Addr h2) ''C_add_int'') \<noteq> NULL \<and>
          fst (loader_sym p (Addr h2) ''C_add_double'') \<noteq> NULL)"

section \<open>Example platforms\<close>

text \<open>
  A platform where both libraries load and the module exports the three functions
  of mymath_c_api.h.
\<close>

definition mymath_platform :: platform where
  "mymath_platform =
     \<lparr>loader_open = (\<lambda>path mode.
        if path = py_path then Inr 1
        else if path = mod_path then Inr 2
        else Inl (path @ '': cannot open shared object file'')),
      loader_sym = (\<lambda>handle name.
        if handle = Addr 2 \<and> name = ''C_add_int'' then (Addr 100, None)
        else if handle = Addr 2 \<and> name = ''C_add_double'' then (Addr 200, None)
        else if handle = Addr 2 \<and> name = ''C_dot'' then (Addr 300, None)
        else (NULL, Some (''undefined symbol: '' @ name))),
      loader_close = (\<lambda>handle. None),
      code_int = (\<lambda>a. if a = 100 then C_add_int else (\<lambda>x y. 0)),
      code_double = (\<lambda>a. if a = 200 then C_add_double else (\<lambda>x y. 0))\<rparr>"

text \<open>The prerequisite library is not found.\<close>

definition no_python_platform :: platform where
  "no_python_platform =
     mymath_platform\<lparr>loader_open := (\<lambda>path mode.
        if path = mod_path then Inr 2 else Inl (path @ '': cannot open shared object file''))\<rparr>"

text \<open>The module does not export \<open>C_add_double\<close>.\<close>

definition no_add_double_platform :: platform where
  "no_add_double_platform =
     mymath_platform\<lparr>loader_sym := (\<lambda>handle name.
        if handle = Addr 2 \<and> name = ''C_add_int'' then (Addr 100, None)
        else (NULL, Some (''undefined symbol: '' @ name)))\<rparr>"

text \<open>The lookup of \<open>C_add_int\<close> raises an error and still returns an address.\<close>

definition flagged_platform :: platform where
  "flagged_platform =
     mymath_platform\<lparr>loader_sym := (\<lambda>handle name. (Addr 100, Some (''symbol error: '' @ name)))\<rparr>"

text \<open>The module defines \<open>C_add_int\<close> with the null address as its value.\<close>

definition null_symbol_platform :: platform where
  "null_symbol_platform =
     mymath_platform\<lparr>loader_sym := (\<lambda>handle name.
        if name = ''C_add_int'' then (NULL, None) else (Addr 200, None))\<rparr>"

text \<open>Closing the module fails.\<close>

definition close_fails_platform :: platform where
  "close_fails_platform =
     mymath_platform\<lparr>loader_close := (\<lambda>handle. Some ''cannot close shared object'')\<rparr>"

section \<open>The paths through \<open>main\<close>\<close>

lemmas dl_defs = dlopen_def dlerror_def dlsym_def dlclose_def call_int_def call_double_def
  log_def write_cout_def write_cerr_def

lemma main_python_fails:
  assumes "loader_open p py_path py_mode = Inl msg"
  shows "main p e0 = (Exit 1,
    \<lparr>dl_error = None, cout = [],
     cerr = [Str ''dlopen libpython error: '', Str msg, Endl],
     trace = [Dlopen py_path py_mode NULL, Dlerror (Some msg)]\<rparr>)"
  using assms by (simp add: main_def dl_defs insert_commute)

lemma main_module_fails:
  assumes "loader_open p py_path py_mode = Inr h1"
    and "loader_open p mod_path mod_mode = Inl msg"
  shows "main p e0 = (Exit 1,
    \<lparr>dl_error = None, cout = [],
     cerr = [Str ''dlopen error: '', Str msg, Endl],
     trace = [Dlopen py_path py_mode (Addr h1), Dlopen mod_path mod_mode NULL,
       Dlerror (Some msg)]\<rparr>)"
  using assms by (simp add: main_def dl_defs insert_commute)

lemma main_first_fails:
  assumes "loader_open p py_path py_mode = Inr h1"
    and "loader_open p mod_path mod_mode = Inr h2"
    and "loader_sym p (Addr h2) ''C_add_int'' = (a1, Some msg)"
  shows "main p e0 = (Exit 1,
    \<lparr>dl_error = loader_close p (Addr h2), cout = [],
     cerr = [Str ''dlsym(C_add_int) error: '', Str msg, Endl],
     trace = [Dlopen py_path py_mode (Addr h1), Dlopen mod_path mod_mode (Addr h2),
       Dlerror e0, Dlsym (Addr h2) ''C_add_int'' None a1, Dlerror (Some msg),
       Dlclose (Addr h2) (case loader_close p (Addr h2) of None \<Rightarrow> 0 | Some m \<Rightarrow> - 1)]\<rparr>)"
  using assms by (simp add: main_def dl_defs insert_commute split: option.splits)

lemma main_second_fails:
  assumes "loader_open p py_path py_mode = Inr h1"
    and "loader_open p mod_path mod_mode = Inr h2"
    and "loader_sym p (Addr h2) ''C_add_int'' = (a1, None)"
    and "loader_sym p (Addr h2) ''C_add_double'' = (a2, Some msg)"
  shows "main p e0 = (Exit 1,
    \<lparr>dl_error = loader_close p (Addr h2), cout = [],
     cerr = [Str ''dlsym(C_add_double) error: '', Str msg, Endl],
     trace = [Dlopen py_path py_mode (Addr h1), Dlopen mod_path mod_mode (Addr h2),
       Dlerror e0, Dlsym (Addr h2) ''C_add_int'' None a1, Dlerror None,
       Dlsym (Addr h2) ''C_add_double'' None a2, Dlerror (Some msg),
       Dlclose (Addr h2) (case loader_close p (Addr h2) of None \<Rightarrow> 0 | Some m \<Rightarrow> - 1)]\<rparr>)"
  using assms by (simp add: main_def dl_defs insert_commute split: option.splits)

lemma main_first_null:
  assumes "loader_open p py_path py_mode = Inr h1"
    and "loader_open p mod_path mod_mode = Inr h2"
    and "loader_sym p (Addr h2) ''C_add_int'' = (NULL, None)"
    and "loader_sym p (Addr h2) ''C_add_double'' = (a2, None)"
  shows "main p e0 = (Undefined_behaviour,
    \<lparr>dl_error = None, cout = [Str ''C_add_int(2, 3) = ''], cerr = [],
     trace = [Dlopen py_path py_mode (Addr h1), Dlopen mod_path mod_mode (Addr h2),
       Dlerror e0, Dlsym (Addr h2) ''C_add_int'' None NULL, Dlerror None,
       Dlsym (Addr h2) ''C_add_double'' None a2, Dlerror None]\<rparr>)"
  using assms by (simp add: main_def dl_defs insert_commute split: option.splits)

lemma main_second_null:
  assumes "loader_open p py_path py_mode = Inr h1"
    and "loader_open p mod_path mod_mode = Inr h2"
    and "loader_sym p (Addr h2) ''C_add_int'' = (Addr f1, None)"
    and "loader_sym p (Addr h2) ''C_add_double'' = (NULL, None)"
  shows "main p e0 = (Undefined_behaviour,
    \<lparr>dl_error = None,
     cout = [Str ''C_add_int(2, 3) = '', Int_val (code_int p f1 2 3), Endl,
       Str ''C_add_double(1.5, 2.5) = ''],
     cerr = [],
     trace = [Dlopen py_path py_mode (Addr h1), Dlopen mod_path mod_mode (Addr h2),
       Dlerror e0, Dlsym (Addr h2) ''C_add_int'' None (Addr f1), Dlerror None,
       Dlsym (Addr h2) ''C_add_double'' None NULL, Dlerror None,
       Call_int (Addr f1) 2 3 (code_int p f1 2 3)]\<rparr>)"
  using assms by (simp add: main_def dl_defs insert_commute split: option.splits)

lemma main_succeeds:
  assumes "loader_open p py_path py_mode = Inr h1"
    and "loader_open p mod_path mod_mode = Inr h2"
    and "loader_sym p (Addr h2) ''C_add_int'' = (Addr f1, None)"
    and "loader_sym p (Addr h2) ''C_add_double'' = (Addr f2, None)"
  shows "main p e0 = (Exit 0,
    \<lparr>dl_error = loader_close p (Addr h2),
     cout = [Str ''C_add_int(2, 3) = '', Int_val (code_int p f1 2 3), Endl,
       Str ''C_add_double(1.5, 2.5) = '', Double_val (code_double p f2 1.5 2.5), Endl],
     cerr = [],
     trace = [Dlopen py_path py_mode (Addr h1), Dlopen mod_path mod_mode (Addr h2),
       Dlerror e0, Dlsym (Addr h2) ''C_add_int'' None (Addr f1), Dlerror None,
       Dlsym (Addr h2) ''C_add_double'' None (Addr f2), Dlerror None,
       Call_int (Addr f1) 2 3 (code_int p f1 2 3),
       Call_double (Addr f2) 1.5 2.5 (code_double p f2 1.5 2.5),
       Dlclose (Addr h2) (case loader_close p (Addr h2) of None \<Rightarrow> 0 | Some m \<Rightarrow> - 1)]\<rparr>)"
  using assms by (simp add: main_def dl_defs insert_commute split: option.splits)

text \<open>Every platform puts the program on one of these seven paths.\<close>

lemma platform_cases:
  obtains
    (python_fails) msg where "loader_open p py_path py_mode = Inl msg"
  | (module_fails) h1 msg where "loader_open p py_path py_mode = Inr h1"
      and "loader_open p mod_path mod_mode = Inl msg"
  | (first_fails) h1 h2 a1 msg where "loader_open p py_path py_mode = Inr h1"
      and "loader_open p mod_path mod_mode = Inr h2"
      and "loader_sym p (Addr h2) ''C_add_int'' = (a1, Some msg)"
  | (second_fails) h1 h2 a1 a2 msg where "loader_open p py_path py_mode = Inr h1"
      and "loader_open p mod_path mod_mode = Inr h2"
      and "loader_sym p (Addr h2) ''C_add_int'' = (a1, None)"
      and "loader_sym p (Addr h2) ''C_add_double'' = (a2, Some msg)"
  | (first_null) h1 h2 a2 where "loader_open p py_path py_mode = Inr h1"
      and "loader_open p mod_path mod_mode = Inr h2"
      and "loader_sym p (Addr h2) ''C_add_int'' = (NULL, None)"
      and "loader_sym p (Addr h2) ''C_add_double'' = (a2, None)"
  | (second_null) h1 h2 f1 where "loader_open p py_path py_mode = Inr h1"
      and "loader_open p mod_path mod_mode = Inr h2"
      and "loader_sym p (Addr h2) ''C_add_int'' = (Addr f1, None)"
      and "loader_sym p (Addr h2) ''C_add_double'' = (NULL, None)"
  | (succeeds) h1 h2 f1 f2 where "loader_open p py_path py_mode = Inr h1"
      and "loader_open p mod_path mod_mode = Inr h2"
      and "loader_sym p (Addr h2) ''C_add_int'' = (Addr f1, None)"
      and "loader_sym p (Addr h2) ''C_add_double'' = (Addr f2, None)"
proof (cases "loader_open p py_path py_mode")
  case (Inl msg)
  then show ?thesis by (rule python_fails)
next
  case o1: (Inr h1)
  show ?thesis
  proof (cases "loader_open p mod_path mod_mode")
    case (Inl msg)
    with o1 show ?thesis by (rule module_fails)
  next
    case o2: (Inr h2)
    obtain a1 e1 where s1: "loader_sym p (Addr h2) ''C_add_int'' = (a1, e1)"
      by (cases "loader_sym p (Addr h2) ''C_add_int''")
    obtain a2 e2 where s2: "loader_sym p (Addr h2) ''C_add_double'' = (a2, e2)"
      by (cases "loader_sym p (Addr h2) ''C_add_double''")
    show ?thesis
    proof (cases e1)
      case (Some msg)
      with o1 o2 s1 show ?thesis by (auto intro: first_fails)
    next
      case n1: None
      show ?thesis
      proof (cases e2)
        case (Some msg)
        with o1 o2 s1 s2 n1 show ?thesis by (auto intro: second_fails)
      next
        case n2: None
        show ?thesis
        proof (cases a1)
          case NULL
          with o1 o2 s1 s2 n1 n2 show ?thesis by (auto intro: first_null)
        next
          case f1: (Addr f1)
          show ?thesis
          proof (cases a2)
            case NULL
            with o1 o2 s1 s2 n1 n2 f1 show ?thesis by (auto intro: second_null)
          next
            case (Addr f2)
            with o1 o2 s1 s2 n1 n2 f1 show ?thesis by (auto intro: succeeds)
          qed
        qed
      qed
    qed
  qed
qed

lemma lookup_names_main:
  "set (lookup_names (trace (snd (main p e0)))) \<subseteq> {''C_add_int'', ''C_add_double''}"
proof (cases rule: platform_cases [of p])
  case (python_fails msg)
  from main_python_fails [OF python_fails] show ?thesis by simp
next
  case (module_fails h1 msg)
  from main_module_fails [OF module_fails] show ?thesis by simp
next
  case (first_fails h1 h2 a1 msg)
  from main_first_fails [OF first_fails] show ?thesis by simp
next
  case (second_fails h1 h2 a1 a2 msg)
  from main_second_fails [OF second_fails] show ?thesis by simp
next
  case (first_null h1 h2 a2)
  from main_first_null [OF first_null] show ?thesis by simp
next
  case (second_null h1 h2 f1)
  from main_second_null [OF second_null] show ?thesis by simp
next
  case (succeeds h1 h2 f1 f2)
  from main_succeeds [OF succeeds] show ?thesis by simp
qed

section \<open>The program on the example platforms\<close>

lemma mymath_run:
  "main mymath_platform e0 = (Exit 0,
    \<lparr>dl_error = None,
     cout = [Str ''C_add_int(2, 3) = '', Int_val 5, Endl,
       Str ''C_add_double(1.5, 2.5) = '', Double_val 4, Endl],
     cerr = [],
     trace = [Dlopen py_path py_mode (Addr 1), Dlopen mod_path mod_mode (Addr 2),
       Dlerror e0, Dlsym (Addr 2) ''C_add_int'' None (Addr 100), Dlerror None,
       Dlsym (Addr 2) ''C_add_double'' None (Addr 200), Dlerror None,
       Call_int (Addr 100) 2 3 5, Call_double (Addr 200) 1.5 2.5 4,
       Dlclose (Addr 2) 0]\<rparr>)"
proof -
  have o1: "loader_open mymath_platform py_path py_mode = Inr 1"
    and o2: "loader_open mymath_platform mod_path mod_mode = Inr 2"
    and s1: "loader_sym mymath_platform (Addr 2) ''C_add_int'' = (Addr 100, None)"
    and s2: "loader_sym mymath_platform (Addr 2) ''C_add_double'' = (Addr 200, None)"
    and c: "loader_close mymath_platform (Addr 2) = None"
    and c1: "code_int mymath_platform 100 = C_add_int"
    and c2: "code_double mymath_platform 200 = C_add_double"
    by (simp_all add: mymath_platform_def)
  from main_succeeds [OF o1 o2 s1 s2, of e0] c c1 c2 show ?thesis
    by (simp add: C_add_int_def C_add_double_def)
qed

lemma no_add_double_run:
  "main no_add_double_platform None = (Exit 1,
    \<lparr>dl_error = None, cout = [],
     cerr = [Str ''dlsym(C_add_double) error: '', Str ''undefined symbol: C_add_double'', Endl],
     trace = [Dlopen py_path py_mode (Addr 1), Dlopen mod_path mod_mode (Addr 2),
       Dlerror None, Dlsym (Addr 2) ''C_add_int'' None (Addr 100), Dlerror None,
       Dlsym (Addr 2) ''C_add_double'' None NULL,
       Dlerror (Some ''undefined symbol: C_add_double''), Dlclose (Addr 2) 0]\<rparr>)"
proof -
  have o1: "loader_open no_add_double_platform py_path py_mode = Inr 1"
    and o2: "loader_open no_add_double_platform mod_path mod_mode = Inr 2"
    and s1: "loader_sym no_add_double_platform (Addr 2) ''C_add_int'' = (Addr 100, None)"
    and s2: "loader_sym no_add_double_platform (Addr 2) ''C_add_double'' =
      (NULL, Some ''undefined symbol: C_add_double'')"
    and c: "loader_close no_add_double_platform (Addr 2) = None"
    by (simp_all add: no_add_double_platform_def mymath_platform_def)
  from main_second_fails [OF o1 o2 s1 s2, of None] c show ?thesis by simp
qed

lemma flagged_run:
  "main flagged_platform None = (Exit 1,
    \<lparr>dl_error = None, cout = [],
     cerr = [Str ''dlsym(C_add_int) error: '', Str ''symbol error: C_add_int'', Endl],
     trace = [Dlopen py_path py_mode (Addr 1), Dlopen mod_path mod_mode (Addr 2),
       Dlerror None, Dlsym (Addr 2) ''C_add_int'' None (Addr 100),
       Dlerror (Some ''symbol error: C_add_int''), Dlclose (Addr 2) 0]\<rparr>)"
proof -
  have o1: "loader_open flagged_platform py_path py_mode = Inr 1"
    and o2: "loader_open flagged_platform mod_path mod_mode = Inr 2"
    and s1: "loader_sym flagged_platform (Addr 2) ''C_add_int'' =
      (Addr 100, Some ''symbol error: C_add_int'')"
    and c: "loader_close flagged_platform (Addr 2) = None"
    by (simp_all add: flagged_platform_def mymath_platform_def)
  from main_first_fails [OF o1 o2 s1, of None] c show ?thesis by simp
qed

lemma close_fails_run:
  "main close_fails_platform None = (Exit 0,
    \<lparr>dl_error = Some ''cannot close shared object'',
     cout = [Str ''C_add_int(2, 3) = '', Int_val 5, Endl,
       Str ''C_add_double(1.5, 2.5) = '', Double_val 4, Endl],
     cerr = [],
     trace = [Dlopen py_path py_mode (Addr 1), Dlopen mod_path mod_mode (Addr 2),
       Dlerror None, Dlsym (Addr 2) ''C_add_int'' None (Addr 100), Dlerror None,
       Dlsym (Addr 2) ''C_add_double'' None (Addr 200), Dlerror None,
       Call_int (Addr 100) 2 3 5, Call_double (Addr 200) 1.5 2.5 4,
       Dlclose (Addr 2) (- 1)]\<rparr>)"
proof -
  have o1: "loader_open close_fails_platform py_path py_mode = Inr 1"
    and o2: "loader_open close_fails_platform mod_path mod_mode = Inr 2"
    and s1: "loader_sym close_fails_platform (Addr 2) ''C_add_int'' = (Addr 100, None)"
    and s2: "loader_sym close_fails_platform (Addr 2) ''C_add_double'' = (Addr 200, None)"
    and c: "loader_close close_fails_platform (Addr 2) = Some ''cannot close shared object''"
    and c1: "code_int close_fails_platform 100 = C_add_int"
    and c2: "code_double close_fails_platform 200 = C_add_double"
    by (simp_all add: close_fails_platform_def mymath_platform_def)
  from main_succeeds [OF o1 o2 s1 s2, of None] c c1 c2 show ?thesis
    by (simp add: C_add_int_def C_add_double_def)
qed

section \<open>Properties of the program\<close>

subsection \<open>C1: \<open>C_dot\<close>\<close>

text \<open>
  C1, as stated, has the program resolve and invoke \<open>C_dot\<close>. It does not: on a
  platform whose module exports \<open>C_dot\<close> and where every load and resolution
  succeeds, the symbols the program looks up are \<open>C_add_int\<close> and \<open>C_add_double\<close>
  and nothing else.
\<close>

theorem C_dot_never_resolved_counterexample:
  "lookup_names (trace (snd (main mymath_platform None))) = [''C_add_int'', ''C_add_double''] \<and>
   ''C_dot'' \<notin> set (lookup_names (trace (snd (main mymath_platform None))))"
  by (simp add: mymath_run)

text \<open>
  C1, amended: on no platform does the program look up \<open>C_dot\<close>. The function
  itself, by its contract, returns 32 on the buffers \<open>[1, 2, 3]\<close> and \<open>[4, 5, 6]\<close>
  with length 3, and 0 with length 0 on any two buffers.
\<close>

theorem C_dot_contract:
  "''C_dot'' \<notin> set (lookup_names (trace (snd (main p e0)))) \<and>
   C_dot [1, 2, 3] [4, 5, 6] 3 = Some 32 \<and>
   C_dot x y 0 = Some 0"
proof -
  have "''C_dot'' \<notin> set (lookup_names (trace (snd (main p e0))))"
    using lookup_names_main [of p e0] by auto
  moreover have "C_dot [1, 2, 3] [4, 5, 6] 3 = Some 32"
    by (simp add: C_dot_def)
  moreover have "C_dot x y 0 = Some 0"
    by (simp add: C_dot_def)
  ultimately show ?thesis by simp
qed

subsection \<open>C2: the success path\<close>

text \<open>
  C2: when both libraries load and the two symbols resolve to the module's
  \<open>C_add_int\<close> and \<open>C_add_double\<close>, the program opens the prerequisite library,
  opens the module, resolves \<open>C_add_int\<close> and \<open>C_add_double\<close>, calls them with
  \<open>(2, 3)\<close> and \<open>(1.5, 2.5)\<close>, which return 5 and 4, releases the module handle
  and exits with code 0; the two results are what it prints.
\<close>

theorem main_success_path:
  assumes "loader_open p py_path py_mode = Inr h1"
    and "loader_open p mod_path mod_mode = Inr h2"
    and "loader_sym p (Addr h2) ''C_add_int'' = (Addr f1, None)"
    and "loader_sym p (Addr h2) ''C_add_double'' = (Addr f2, None)"
    and "code_int p f1 = C_add_int"
    and "code_double p f2 = C_add_double"
  shows "fst (main p e0) = Exit 0 \<and>
    (\<exists>rc. trace (snd (main p e0)) =
      [Dlopen ''libpython3.12.so'' {RTLD_NOW, RTLD_GLOBAL} (Addr h1),
       Dlopen ''./mymath.cpython-312-x86_64-linux-gnu.so'' {RTLD_NOW} (Addr h2),
       Dlerror e0,
       Dlsym (Addr h2) ''C_add_int'' None (Addr f1), Dlerror None,
       Dlsym (Addr h2) ''C_add_double'' None (Addr f2), Dlerror None,
       Call_int (Addr f1) 2 3 5,
       Call_double (Addr f2) 1.5 2.5 4,
       Dlclose (Addr h2) rc]) \<and>
    cout (snd (main p e0)) =
      [Str ''C_add_int(2, 3) = '', Int_val 5, Endl,
       Str ''C_add_double(1.5, 2.5) = '', Double_val 4, Endl]"
  using main_succeeds [OF assms(1-4), of e0] assms(5,6)
  by (simp add: C_add_int_def C_add_double_def)

theorem main_success_path_witness:
  "loader_open mymath_platform py_path py_mode = Inr 1 \<and>
   loader_open mymath_platform mod_path mod_mode = Inr 2 \<and>
   loader_sym mymath_platform (Addr 2) ''C_add_int'' = (Addr 100, None) \<and>
   loader_sym mymath_platform (Addr 2) ''C_add_double'' = (Addr 200, None) \<and>
   code_int mymath_platform 100 = C_add_int \<and>
   code_double mymath_platform 200 = C_add_double \<and>
   fst (main mymath_platform None) = Exit 0 \<and>
   (\<exists>rc. trace (snd (main mymath_platform None)) =
      [Dlopen ''libpython3.12.so'' {RTLD_NOW, RTLD_GLOBAL} (Addr 1),
       Dlopen ''./mymath.cpython-312-x86_64-linux-gnu.so'' {RTLD_NOW} (Addr 2),
       Dlerror None,
       Dlsym (Addr 2) ''C_add_int'' None (Addr 100), Dlerror None,
       Dlsym (Addr 2) ''C_add_double'' None (Addr 200), Dlerror None,
       Call_int (Addr 100) 2 3 5,
       Call_double (Addr 200) 1.5 2.5 4,
       Dlclose (Addr 2) rc]) \<and>
   cout (snd (main mymath_platform None)) =
      [Str ''C_add_int(2, 3) = '', Int_val 5, Endl,
       Str ''C_add_double(1.5, 2.5) = '', Double_val 4, Endl]"
proof -
  have o1: "loader_open mymath_platform py_path py_mode = Inr 1"
    and o2: "loader_open mymath_platform mod_path mod_mode = Inr 2"
    and s1: "loader_sym mymath_platform (Addr 2) ''C_add_int'' = (Addr 100, None)"
    and s2: "loader_sym mymath_platform (Addr 2) ''C_add_double'' = (Addr 200, None)"
    and c1: "code_int mymath_platform 100 = C_add_int"
    and c2: "code_double mymath_platform 200 = C_add_double"
    by (simp_all add: mymath_platform_def)
  from main_success_path [OF o1 o2 s1 s2 c1 c2, of None] o1 o2 s1 s2 c1 c2
  show ?thesis by simp
qed

subsection \<open>C3: the exit code\<close>

text \<open>
  C3, as stated, has the exit code be 0 exactly when every load and every symbol
  resolution succeeded. Where \<open>C_add_int\<close> resolves without error to the null
  address, every load and resolution has succeeded, and the program calls through
  the null pointer instead of exiting with 0.
\<close>

theorem main_exit_code_counterexample:
  "first_failure null_symbol_platform = None \<and>
   fst (main null_symbol_platform None) = Undefined_behaviour \<and>
   fst (main null_symbol_platform None) \<noteq> Exit 0"
proof -
  have o1: "loader_open null_symbol_platform py_path py_mode = Inr 1"
    and o2: "loader_open null_symbol_platform mod_path mod_mode = Inr 2"
    and s1: "loader_sym null_symbol_platform (Addr 2) ''C_add_int'' = (NULL, None)"
    and s2: "loader_sym null_symbol_platform (Addr 2) ''C_add_double'' = (Addr 200, None)"
    by (simp_all add: null_symbol_platform_def mymath_platform_def)
  from main_first_null [OF o1 o2 s1 s2, of None] o1 o2 s1 s2
  show ?thesis by (simp add: first_failure_def)
qed

text \<open>
  C3, amended: the exit code is 0 exactly when every load and every symbol
  resolution succeeded and both resolved addresses are not null; it is 1 exactly
  when a load or a resolution failed, and then the error stream holds one line: a
  label, the loader's diagnostic of the first failure, and the end of line.
\<close>

theorem main_exit_code:
  "(fst (main p e0) = Exit 0 \<longleftrightarrow> first_failure p = None \<and> resolved_callable p) \<and>
   (fst (main p e0) = Exit 1 \<longleftrightarrow> first_failure p \<noteq> None) \<and>
   (\<forall>msg. first_failure p = Some msg \<longrightarrow>
      (\<exists>label. cerr (snd (main p e0)) = [Str label, Str msg, Endl]))"
proof (cases rule: platform_cases [of p])
  case (python_fails msg)
  from main_python_fails [OF python_fails] python_fails show ?thesis
    by (simp add: first_failure_def resolved_callable_def)
next
  case (module_fails h1 msg)
  from main_module_fails [OF module_fails] module_fails show ?thesis
    by (simp add: first_failure_def resolved_callable_def)
next
  case (first_fails h1 h2 a1 msg)
  from main_first_fails [OF first_fails] first_fails show ?thesis
    by (simp add: first_failure_def resolved_callable_def)
next
  case (second_fails h1 h2 a1 a2 msg)
  from main_second_fails [OF second_fails] second_fails show ?thesis
    by (simp add: first_failure_def resolved_callable_def)
next
  case (first_null h1 h2 a2)
  from main_first_null [OF first_null] first_null show ?thesis
    by (simp add: first_failure_def resolved_callable_def)
next
  case (second_null h1 h2 f1)
  from main_second_null [OF second_null] second_null show ?thesis
    by (simp add: first_failure_def resolved_callable_def)
next
  case (succeeds h1 h2 f1 f2)
  from main_succeeds [OF succeeds] succeeds show ?thesis
    by (simp add: first_failure_def resolved_callable_def)
qed

theorem main_exit_code_witness:
  "first_failure no_python_platform = Some ''libpython3.12.so: cannot open shared object file'' \<and>
   fst (main no_python_platform None) = Exit 1 \<and>
   (\<exists>label. cerr (snd (main no_python_platform None)) =
      [Str label, Str ''libpython3.12.so: cannot open shared object file'', Endl])"
proof -
  have f: "first_failure no_python_platform =
      Some ''libpython3.12.so: cannot open shared object file''"
    by (simp add: first_failure_def no_python_platform_def mymath_platform_def)
  with main_exit_code [of no_python_platform None] show ?thesis by simp
qed


subsection \<open>C4: the resolution protocol\<close>

text \<open>
  C4: every \<open>dlsym\<close> call of the program comes right after a \<open>dlerror\<close> call and
  finds the error indicator clear; it looks up one of the two literal names, and
  the address it yields is the loader's answer for that name; the next call is
  \<open>dlerror\<close>, which returns what the lookup raised; and when the lookup raised an
  error, whatever address it returned, the program exits with 1 and calls no
  resolved function.
\<close>

theorem resolution_protocol:
  "\<forall>i < length (trace (snd (main p e0))). \<forall>h name e a.
     trace (snd (main p e0)) ! i = Dlsym h name e a \<longrightarrow>
       0 < i \<and> is_Dlerror (trace (snd (main p e0)) ! (i - 1)) \<and> e = None \<and>
       (name = ''C_add_int'' \<or> name = ''C_add_double'') \<and>
       a = fst (loader_sym p h name) \<and>
       Suc i < length (trace (snd (main p e0))) \<and>
       trace (snd (main p e0)) ! Suc i = Dlerror (snd (loader_sym p h name)) \<and>
       (snd (loader_sym p h name) \<noteq> None \<longrightarrow>
          fst (main p e0) = Exit 1 \<and> calls (trace (snd (main p e0))) = [])"
proof (cases rule: platform_cases [of p])
  case (python_fails msg)
  from main_python_fails [OF python_fails] python_fails show ?thesis
    by (simp add: All_less_Suc)
next
  case (module_fails h1 msg)
  from main_module_fails [OF module_fails] module_fails show ?thesis
    by (simp add: All_less_Suc)
next
  case (first_fails h1 h2 a1 msg)
  from main_first_fails [OF first_fails] first_fails show ?thesis
    by (simp add: All_less_Suc)
next
  case (second_fails h1 h2 a1 a2 msg)
  from main_second_fails [OF second_fails] second_fails show ?thesis
    by (simp add: All_less_Suc)
next
  case (first_null h1 h2 a2)
  from main_first_null [OF first_null] first_null show ?thesis
    by (simp add: All_less_Suc)
next
  case (second_null h1 h2 f1)
  from main_second_null [OF second_null] second_null show ?thesis
    by (simp add: All_less_Suc)
next
  case (succeeds h1 h2 f1 f2)
  from main_succeeds [OF succeeds] succeeds show ?thesis
    by (simp add: All_less_Suc)
qed

theorem resolution_protocol_witness:
  "3 < length (trace (snd (main flagged_platform None))) \<and>
   trace (snd (main flagged_platform None)) ! 3 = Dlsym (Addr 2) ''C_add_int'' None (Addr 100) \<and>
   loader_sym flagged_platform (Addr 2) ''C_add_int'' =
     (Addr 100, Some ''symbol error: C_add_int'') \<and>
   is_Dlerror (trace (snd (main flagged_platform None)) ! 2) \<and>
   trace (snd (main flagged_platform None)) ! 4 = Dlerror (Some ''symbol error: C_add_int'') \<and>
   fst (main flagged_platform None) = Exit 1 \<and>
   calls (trace (snd (main flagged_platform None))) = []"
proof -
  have len: "3 < length (trace (snd (main flagged_platform None)))"
    and ev: "trace (snd (main flagged_platform None)) ! 3 =
      Dlsym (Addr 2) ''C_add_int'' None (Addr 100)"
    by (simp_all add: flagged_run)
  have s1: "loader_sym flagged_platform (Addr 2) ''C_add_int'' =
      (Addr 100, Some ''symbol error: C_add_int'')"
    by (simp add: flagged_platform_def mymath_platform_def)
  from resolution_protocol [rule_format, OF len ev] s1
  have "is_Dlerror (trace (snd (main flagged_platform None)) ! 2) \<and>
    trace (snd (main flagged_platform None)) ! 4 = Dlerror (Some ''symbol error: C_add_int'') \<and>
    fst (main flagged_platform None) = Exit 1 \<and>
    calls (trace (snd (main flagged_platform None))) = []"
    by simp
  with len ev s1 show ?thesis by simp
qed


subsection \<open>C5: release of the module handle\<close>

text \<open>
  C5: no run releases twice. When a load or resolution fails, no resolved function
  is called. When the module was opened with handle \<open>h\<close> and the program exits,
  it has released exactly \<open>h\<close>, exactly once, and the release is its last call:
  no lookup, call or release comes after it.
\<close>

theorem module_handle_released_once:
  "length (releases (trace (snd (main p e0)))) \<le> 1 \<and>
   (first_failure p \<noteq> None \<longrightarrow> calls (trace (snd (main p e0))) = []) \<and>
   (\<forall>h c. Dlopen mod_path mod_mode (Addr h) \<in> set (trace (snd (main p e0))) \<and>
       fst (main p e0) = Exit c \<longrightarrow>
     releases (trace (snd (main p e0))) = [Addr h] \<and>
     (\<exists>rc. last (trace (snd (main p e0))) = Dlclose (Addr h) rc) \<and>
     releases (butlast (trace (snd (main p e0)))) = [])"
proof (cases rule: platform_cases [of p])
  case (python_fails msg)
  from main_python_fails [OF python_fails] python_fails show ?thesis
    by (simp add: first_failure_def)
next
  case (module_fails h1 msg)
  from main_module_fails [OF module_fails] module_fails show ?thesis
    by (simp add: first_failure_def)
next
  case (first_fails h1 h2 a1 msg)
  from main_first_fails [OF first_fails] first_fails show ?thesis
    by (simp add: first_failure_def)
next
  case (second_fails h1 h2 a1 a2 msg)
  from main_second_fails [OF second_fails] second_fails show ?thesis
    by (simp add: first_failure_def)
next
  case (first_null h1 h2 a2)
  from main_first_null [OF first_null] first_null show ?thesis
    by (simp add: first_failure_def)
next
  case (second_null h1 h2 f1)
  from main_second_null [OF second_null] second_null show ?thesis
    by (simp add: first_failure_def)
next
  case (succeeds h1 h2 f1 f2)
  from main_succeeds [OF succeeds] succeeds show ?thesis
    by (simp add: first_failure_def)
qed

theorem module_handle_released_once_witness:
  "Dlopen mod_path mod_mode (Addr 2) \<in> set (trace (snd (main no_add_double_platform None))) \<and>
   fst (main no_add_double_platform None) = Exit 1 \<and>
   first_failure no_add_double_platform \<noteq> None \<and>
   calls (trace (snd (main no_add_double_platform None))) = [] \<and>
   releases (trace (snd (main no_add_double_platform None))) = [Addr 2] \<and>
   (\<exists>rc. last (trace (snd (main no_add_double_platform None))) = Dlclose (Addr 2) rc) \<and>
   releases (butlast (trace (snd (main no_add_double_platform None)))) = []"
proof -
  have opened: "Dlopen mod_path mod_mode (Addr 2) \<in>
      set (trace (snd (main no_add_double_platform None)))"
    and code: "fst (main no_add_double_platform None) = Exit 1"
    by (simp_all add: no_add_double_run)
  have failed: "first_failure no_add_double_platform \<noteq> None"
    by (simp add: first_failure_def no_add_double_platform_def mymath_platform_def)
  from module_handle_released_once [of no_add_double_platform None] opened code failed
  have "calls (trace (snd (main no_add_double_platform None))) = [] \<and>
    releases (trace (snd (main no_add_double_platform None))) = [Addr 2] \<and>
    (\<exists>rc. last (trace (snd (main no_add_double_platform None))) = Dlclose (Addr 2) rc) \<and>
    releases (butlast (trace (snd (main no_add_double_platform None)))) = []"
    by blast
  with opened code failed show ?thesis by simp
qed


subsection \<open>C6: the loads and their modes\<close>

text \<open>
  C6: the first call is the load of the prerequisite library, with immediate
  binding and global visibility. When it fails there is no other load and no
  lookup. When it succeeds the next call is the load of the module, with immediate
  binding; there is no other load, and when it fails there is no lookup. So every
  lookup comes after both loads have succeeded.
\<close>

theorem loads_precede_lookups:
  "(\<exists>hpy rest. trace (snd (main p e0)) =
      Dlopen ''libpython3.12.so'' {RTLD_NOW, RTLD_GLOBAL} hpy # rest \<and>
      (hpy = NULL \<longrightarrow> opens rest = [] \<and> lookup_names rest = []) \<and>
      (hpy \<noteq> NULL \<longrightarrow>
        (\<exists>handle rest'. rest =
            Dlopen ''./mymath.cpython-312-x86_64-linux-gnu.so'' {RTLD_NOW} handle # rest' \<and>
          opens rest' = [] \<and>
          (handle = NULL \<longrightarrow> lookup_names rest' = []))))"
proof (cases rule: platform_cases [of p])
  case (python_fails msg)
  from main_python_fails [OF python_fails] python_fails show ?thesis
    by simp
next
  case (module_fails h1 msg)
  from main_module_fails [OF module_fails] module_fails show ?thesis
    by simp
next
  case (first_fails h1 h2 a1 msg)
  from main_first_fails [OF first_fails] first_fails show ?thesis
    by simp
next
  case (second_fails h1 h2 a1 a2 msg)
  from main_second_fails [OF second_fails] second_fails show ?thesis
    by simp
next
  case (first_null h1 h2 a2)
  from main_first_null [OF first_null] first_null show ?thesis
    by simp
next
  case (second_null h1 h2 f1)
  from main_second_null [OF second_null] second_null show ?thesis
    by simp
next
  case (succeeds h1 h2 f1 f2)
  from main_succeeds [OF succeeds] succeeds show ?thesis
    by simp
qed

theorem loads_precede_lookups_witness:
  "(\<exists>rest. trace (snd (main no_python_platform None)) =
      Dlopen ''libpython3.12.so'' {RTLD_NOW, RTLD_GLOBAL} NULL # rest \<and>
      opens rest = [] \<and> lookup_names rest = []) \<and>
   (\<exists>h1 rest. trace (snd (main mymath_platform None)) =
      Dlopen ''libpython3.12.so'' {RTLD_NOW, RTLD_GLOBAL} (Addr h1) #
      Dlopen ''./mymath.cpython-312-x86_64-linux-gnu.so'' {RTLD_NOW} (Addr 2) # rest \<and>
      opens rest = [])"
proof -
  have "hd (trace (snd (main no_python_platform None))) = Dlopen py_path py_mode NULL"
    using main_python_fails [of no_python_platform
        "''libpython3.12.so: cannot open shared object file''" None]
    by (simp add: no_python_platform_def mymath_platform_def)
  with loads_precede_lookups [of no_python_platform None]
  have a: "\<exists>rest. trace (snd (main no_python_platform None)) =
      Dlopen py_path py_mode NULL # rest \<and> opens rest = [] \<and> lookup_names rest = []"
    by auto
  have "take 2 (trace (snd (main mymath_platform None))) =
      [Dlopen py_path py_mode (Addr 1), Dlopen mod_path mod_mode (Addr 2)]"
    by (simp add: mymath_run)
  with loads_precede_lookups [of mymath_platform None]
  have b: "\<exists>h1 rest. trace (snd (main mymath_platform None)) =
      Dlopen py_path py_mode (Addr h1) # Dlopen mod_path mod_mode (Addr 2) # rest \<and>
      opens rest = []"
    by auto
  from a b show ?thesis by simp
qed


subsection \<open>C7: the prerequisite handle\<close>

text \<open>
  C7: the prerequisite library is loaded first and only once. Every handle passed
  to \<open>dlsym\<close> or \<open>dlclose\<close> is the one the load of the module returned; so the
  prerequisite handle, unless the loader returned the very same pointer for the
  module, is never used for a lookup and never released.
\<close>

theorem prerequisite_handle_held:
  "(\<exists>hpy rest. trace (snd (main p e0)) = Dlopen py_path py_mode hpy # rest \<and>
      ''libpython3.12.so'' \<notin> fst ` set (opens rest)) \<and>
   (\<forall>h \<in> set (handles_used (trace (snd (main p e0)))).
      Dlopen mod_path mod_mode h \<in> set (trace (snd (main p e0)))) \<and>
   (\<forall>hpy. Dlopen py_path py_mode hpy \<in> set (trace (snd (main p e0))) \<and>
      Dlopen mod_path mod_mode hpy \<notin> set (trace (snd (main p e0))) \<longrightarrow>
      hpy \<notin> set (handles_used (trace (snd (main p e0)))))"
proof (cases rule: platform_cases [of p])
  case (python_fails msg)
  from main_python_fails [OF python_fails] python_fails show ?thesis
    by simp
next
  case (module_fails h1 msg)
  from main_module_fails [OF module_fails] module_fails show ?thesis
    by simp
next
  case (first_fails h1 h2 a1 msg)
  from main_first_fails [OF first_fails] first_fails show ?thesis
    by auto
next
  case (second_fails h1 h2 a1 a2 msg)
  from main_second_fails [OF second_fails] second_fails show ?thesis
    by auto
next
  case (first_null h1 h2 a2)
  from main_first_null [OF first_null] first_null show ?thesis
    by auto
next
  case (second_null h1 h2 f1)
  from main_second_null [OF second_null] second_null show ?thesis
    by auto
next
  case (succeeds h1 h2 f1 f2)
  from main_succeeds [OF succeeds] succeeds show ?thesis
    by auto
qed

theorem prerequisite_handle_held_witness:
  "Dlopen py_path py_mode (Addr 1) \<in> set (trace (snd (main mymath_platform None))) \<and>
   Dlopen mod_path mod_mode (Addr 1) \<notin> set (trace (snd (main mymath_platform None))) \<and>
   Addr 1 \<notin> set (handles_used (trace (snd (main mymath_platform None)))) \<and>
   Addr 2 \<in> set (handles_used (trace (snd (main mymath_platform None)))) \<and>
   Dlopen mod_path mod_mode (Addr 2) \<in> set (trace (snd (main mymath_platform None)))"
proof -
  have a: "Dlopen py_path py_mode (Addr 1) \<in> set (trace (snd (main mymath_platform None)))"
    and b: "Dlopen mod_path mod_mode (Addr 1) \<notin> set (trace (snd (main mymath_platform None)))"
    and c: "Addr 2 \<in> set (handles_used (trace (snd (main mymath_platform None))))"
    by (simp_all add: mymath_run)
  from prerequisite_handle_held [of mymath_platform None] a b c
  have "Addr 1 \<notin> set (handles_used (trace (snd (main mymath_platform None)))) \<and>
    Dlopen mod_path mod_mode (Addr 2) \<in> set (trace (snd (main mymath_platform None)))"
    by blast
  with a b c show ?thesis by simp
qed


subsection \<open>C8: the error indicator before each lookup\<close>

text \<open>
  C8: at every \<open>dlsym\<close> call the error indicator is clear. The call right before
  it is a \<open>dlerror\<close> call: before the first lookup it is the explicit clear, before
  a later lookup it is the check of the previous lookup. A run with lookups makes
  one \<open>dlerror\<close> call more than it makes lookups: one check for each lookup and the
  one explicit clear.
\<close>

theorem indicator_clear_before_lookups:
  "(\<forall>i < length (trace (snd (main p e0))). \<forall>h name e a.
      trace (snd (main p e0)) ! i = Dlsym h name e a \<longrightarrow>
        e = None \<and> 0 < i \<and> is_Dlerror (trace (snd (main p e0)) ! (i - 1)) \<and>
        (lookup_names (take i (trace (snd (main p e0)))) = [] \<or>
         2 \<le> i \<and> is_Dlsym (trace (snd (main p e0)) ! (i - 2)))) \<and>
   (lookup_names (trace (snd (main p e0))) \<noteq> [] \<longrightarrow>
      length (error_reads (trace (snd (main p e0)))) =
        Suc (length (lookup_names (trace (snd (main p e0))))))"
proof (cases rule: platform_cases [of p])
  case (python_fails msg)
  from main_python_fails [OF python_fails] python_fails show ?thesis
    by (simp add: All_less_Suc)
next
  case (module_fails h1 msg)
  from main_module_fails [OF module_fails] module_fails show ?thesis
    by (simp add: All_less_Suc)
next
  case (first_fails h1 h2 a1 msg)
  from main_first_fails [OF first_fails] first_fails show ?thesis
    by (simp add: All_less_Suc)
next
  case (second_fails h1 h2 a1 a2 msg)
  from main_second_fails [OF second_fails] second_fails show ?thesis
    by (simp add: All_less_Suc)
next
  case (first_null h1 h2 a2)
  from main_first_null [OF first_null] first_null show ?thesis
    by (simp add: All_less_Suc)
next
  case (second_null h1 h2 f1)
  from main_second_null [OF second_null] second_null show ?thesis
    by (simp add: All_less_Suc)
next
  case (succeeds h1 h2 f1 f2)
  from main_succeeds [OF succeeds] succeeds show ?thesis
    by (simp add: All_less_Suc)
qed

theorem indicator_clear_before_lookups_witness:
  "trace (snd (main mymath_platform (Some ''stale error''))) ! 2 = Dlerror (Some ''stale error'') \<and>
   trace (snd (main mymath_platform (Some ''stale error''))) ! 3 =
     Dlsym (Addr 2) ''C_add_int'' None (Addr 100) \<and>
   trace (snd (main mymath_platform (Some ''stale error''))) ! 5 =
     Dlsym (Addr 2) ''C_add_double'' None (Addr 200) \<and>
   is_Dlerror (trace (snd (main mymath_platform (Some ''stale error''))) ! 4) \<and>
   is_Dlsym (trace (snd (main mymath_platform (Some ''stale error''))) ! 3) \<and>
   length (error_reads (trace (snd (main mymath_platform (Some ''stale error''))))) = 3"
proof -
  let ?tr = "trace (snd (main mymath_platform (Some ''stale error'')))"
  have len: "5 < length ?tr"
    and ev: "?tr ! 5 = Dlsym (Addr 2) ''C_add_double'' None (Addr 200)"
    and first: "?tr ! 3 = Dlsym (Addr 2) ''C_add_int'' None (Addr 100)"
    and clear: "?tr ! 2 = Dlerror (Some ''stale error'')"
    and names: "lookup_names (take 5 ?tr) = [''C_add_int'']"
      "lookup_names ?tr = [''C_add_int'', ''C_add_double'']"
    by (simp_all add: mymath_run)
  from indicator_clear_before_lookups [of mymath_platform "Some ''stale error''"]
  have all: "\<forall>i < length ?tr. \<forall>h name e a. ?tr ! i = Dlsym h name e a \<longrightarrow>
        e = None \<and> 0 < i \<and> is_Dlerror (?tr ! (i - 1)) \<and>
        (lookup_names (take i ?tr) = [] \<or> 2 \<le> i \<and> is_Dlsym (?tr ! (i - 2)))"
    and count: "lookup_names ?tr \<noteq> [] \<longrightarrow>
      length (error_reads ?tr) = Suc (length (lookup_names ?tr))"
    by blast+
  from all [rule_format, OF len ev] names
  have "is_Dlerror (?tr ! 4) \<and> is_Dlsym (?tr ! 3)" by simp
  moreover from count names have "length (error_reads ?tr) = 3" by simp
  ultimately show ?thesis using clear first ev by simp
qed


subsection \<open>C9: the result of the release\<close>

text \<open>
  C9: the exit code and both streams are the same whatever closing the handle
  answers. Whenever the program releases the handle, \<open>dlclose\<close> returns 0 or -1 as
  closing succeeds or fails, and either way the exit code is 0 when every load
  and resolution succeeded and 1 otherwise.
\<close>

theorem release_result_ignored:
  "fst (main (p\<lparr>loader_close := f\<rparr>) e0) = fst (main p e0) \<and>
   cout (snd (main (p\<lparr>loader_close := f\<rparr>) e0)) = cout (snd (main p e0)) \<and>
   cerr (snd (main (p\<lparr>loader_close := f\<rparr>) e0)) = cerr (snd (main p e0)) \<and>
   (\<forall>h rc. Dlclose h rc \<in> set (trace (snd (main p e0))) \<longrightarrow>
      rc = (case loader_close p h of None \<Rightarrow> 0 | Some msg \<Rightarrow> - 1) \<and>
      fst (main p e0) = (if first_failure p = None then Exit 0 else Exit 1))"
proof (cases rule: platform_cases [of p])
  case (python_fails msg)
  from python_fails have "loader_open (p\<lparr>loader_close := f\<rparr>) py_path py_mode = Inl msg"
    by simp
  from main_python_fails [OF this] main_python_fails [OF python_fails] python_fails
  show ?thesis by (simp add: first_failure_def)
next
  case (module_fails h1 msg)
  from module_fails have "loader_open (p\<lparr>loader_close := f\<rparr>) py_path py_mode = Inr h1"
    "loader_open (p\<lparr>loader_close := f\<rparr>) mod_path mod_mode = Inl msg"
    by simp_all
  from main_module_fails [OF this] main_module_fails [OF module_fails] module_fails
  show ?thesis by (simp add: first_failure_def)
next
  case (first_fails h1 h2 a1 msg)
  from first_fails have "loader_open (p\<lparr>loader_close := f\<rparr>) py_path py_mode = Inr h1"
    "loader_open (p\<lparr>loader_close := f\<rparr>) mod_path mod_mode = Inr h2"
    "loader_sym (p\<lparr>loader_close := f\<rparr>) (Addr h2) ''C_add_int'' = (a1, Some msg)"
    by simp_all
  from main_first_fails [OF this] main_first_fails [OF first_fails] first_fails
  show ?thesis by (simp add: first_failure_def)
next
  case (second_fails h1 h2 a1 a2 msg)
  from second_fails have "loader_open (p\<lparr>loader_close := f\<rparr>) py_path py_mode = Inr h1"
    "loader_open (p\<lparr>loader_close := f\<rparr>) mod_path mod_mode = Inr h2"
    "loader_sym (p\<lparr>loader_close := f\<rparr>) (Addr h2) ''C_add_int'' = (a1, None)"
    "loader_sym (p\<lparr>loader_close := f\<rparr>) (Addr h2) ''C_add_double'' = (a2, Some msg)"
    by simp_all
  from main_second_fails [OF this] main_second_fails [OF second_fails] second_fails
  show ?thesis by (simp add: first_failure_def)
next
  case (first_null h1 h2 a2)
  from first_null have "loader_open (p\<lparr>loader_close := f\<rparr>) py_path py_mode = Inr h1"
    "loader_open (p\<lparr>loader_close := f\<rparr>) mod_path mod_mode = Inr h2"
    "loader_sym (p\<lparr>loader_close := f\<rparr>) (Addr h2) ''C_add_int'' = (NULL, None)"
    "loader_sym (p\<lparr>loader_close := f\<rparr>) (Addr h2) ''C_add_double'' = (a2, None)"
    by simp_all
  from main_first_null [OF this] main_first_null [OF first_null] first_null
  show ?thesis by (simp add: first_failure_def)
next
  case (second_null h1 h2 f1)
  from second_null have "loader_open (p\<lparr>loader_close := f\<rparr>) py_path py_mode = Inr h1"
    "loader_open (p\<lparr>loader_close := f\<rparr>) mod_path mod_mode = Inr h2"
    "loader_sym (p\<lparr>loader_close := f\<rparr>) (Addr h2) ''C_add_int'' = (Addr f1, None)"
    "loader_sym (p\<lparr>loader_close := f\<rparr>) (Addr h2) ''C_add_double'' = (NULL, None)"
    by simp_all
  from main_second_null [OF this] main_second_null [OF second_null] second_null
  show ?thesis by (simp add: first_failure_def)
next
  case (succeeds h1 h2 f1 f2)
  from succeeds have "loader_open (p\<lparr>loader_close := f\<rparr>) py_path py_mode = Inr h1"
    "loader_open (p\<lparr>loader_close := f\<rparr>) mod_path mod_mode = Inr h2"
    "loader_sym (p\<lparr>loader_close := f\<rparr>) (Addr h2) ''C_add_int'' = (Addr f1, None)"
    "loader_sym (p\<lparr>loader_close := f\<rparr>) (Addr h2) ''C_add_double'' = (Addr f2, None)"
    by simp_all
  from main_succeeds [OF this] main_succeeds [OF succeeds] succeeds
  show ?thesis by (simp add: first_failure_def)
qed

theorem release_result_ignored_witness:
  "Dlclose (Addr 2) (- 1) \<in> set (trace (snd (main close_fails_platform None))) \<and>
   loader_close close_fails_platform (Addr 2) = Some ''cannot close shared object'' \<and>
   first_failure close_fails_platform = None \<and>
   fst (main close_fails_platform None) = Exit 0"
proof -
  have rel: "Dlclose (Addr 2) (- 1) \<in> set (trace (snd (main close_fails_platform None)))"
    by (simp add: close_fails_run)
  have c: "loader_close close_fails_platform (Addr 2) = Some ''cannot close shared object''"
    and ok: "first_failure close_fails_platform = None"
    by (simp_all add: first_failure_def close_fails_platform_def mymath_platform_def)
  from release_result_ignored [of "loader_close close_fails_platform"
      close_fails_platform None] rel ok
  have "fst (main close_fails_platform None) = Exit 0"
    by auto
  with rel c ok show ?thesis by simp
qed

subsection \<open>C10: the two streams\<close>

text \<open>
  C10: when the program exits with 1, nothing was written to standard output, no
  resolved function was called, and standard error holds exactly one line: a
  label and the loader's diagnostic of the failure. When it exits with 0, nothing
  was written to standard error and standard output holds exactly two lines: the
  label of \<open>C_add_int\<close> with what the code at the address resolved for \<open>C_add_int\<close>
  returned on \<open>(2, 3)\<close>, and the label of \<open>C_add_double\<close> with what the code at the
  address resolved for \<open>C_add_double\<close> returned on \<open>(1.5, 2.5)\<close>; these two calls
  are the calls the run made. When the program calls through a null pointer, no
  load or resolution had failed, nothing was written to standard error and fewer
  than two lines were ended on standard output. On every run, the values written
  to standard output are the results of the calls made, in order, standard error
  holds no value, the only texts on standard output are the two result labels,
  and the run writes to at most one of the two streams.
\<close>

theorem streams_separated:
  "(fst (main p e0) = Exit 1 \<longrightarrow>
      cout (snd (main p e0)) = [] \<and> line_count (cerr (snd (main p e0))) = 1 \<and>
      calls (trace (snd (main p e0))) = [] \<and>
      (\<exists>label msg. first_failure p = Some msg \<and>
         cerr (snd (main p e0)) = [Str label, Str msg, Endl])) \<and>
   (fst (main p e0) = Exit 0 \<longrightarrow>
      cerr (snd (main p e0)) = [] \<and> line_count (cout (snd (main p e0))) = 2 \<and>
      (\<exists>h f1 f2.
         Dlsym h ''C_add_int'' None (Addr f1) \<in> set (trace (snd (main p e0))) \<and>
         Dlsym h ''C_add_double'' None (Addr f2) \<in> set (trace (snd (main p e0))) \<and>
         calls (trace (snd (main p e0))) =
           [Call_int (Addr f1) 2 3 (code_int p f1 2 3),
            Call_double (Addr f2) 1.5 2.5 (code_double p f2 1.5 2.5)] \<and>
         cout (snd (main p e0)) =
           [Str ''C_add_int(2, 3) = '', Int_val (code_int p f1 2 3), Endl,
            Str ''C_add_double(1.5, 2.5) = '', Double_val (code_double p f2 1.5 2.5), Endl])) \<and>
   (fst (main p e0) = Undefined_behaviour \<longrightarrow>
      cerr (snd (main p e0)) = [] \<and> line_count (cout (snd (main p e0))) < 2 \<and>
      first_failure p = None) \<and>
   values_written (cout (snd (main p e0))) = call_results (trace (snd (main p e0))) \<and>
   values_written (cerr (snd (main p e0))) = [] \<and>
   set (texts_written (cout (snd (main p e0)))) \<subseteq>
     {''C_add_int(2, 3) = '', ''C_add_double(1.5, 2.5) = ''} \<and>
   (cout (snd (main p e0)) = [] \<or> cerr (snd (main p e0)) = [])"
proof (cases rule: platform_cases [of p])
  case (python_fails msg)
  from main_python_fails [OF python_fails] python_fails show ?thesis
    by (simp add: first_failure_def line_count_def)
next
  case (module_fails h1 msg)
  from main_module_fails [OF module_fails] module_fails show ?thesis
    by (simp add: first_failure_def line_count_def)
next
  case (first_fails h1 h2 a1 msg)
  from main_first_fails [OF first_fails] first_fails show ?thesis
    by (simp add: first_failure_def line_count_def)
next
  case (second_fails h1 h2 a1 a2 msg)
  from main_second_fails [OF second_fails] second_fails show ?thesis
    by (simp add: first_failure_def line_count_def)
next
  case (first_null h1 h2 a2)
  from main_first_null [OF first_null] first_null show ?thesis
    by (simp add: first_failure_def line_count_def)
next
  case (second_null h1 h2 f1)
  from main_second_null [OF second_null] second_null show ?thesis
    by (simp add: first_failure_def line_count_def)
next
  case (succeeds h1 h2 f1 f2)
  from main_succeeds [OF succeeds] succeeds show ?thesis
    by (auto simp add: first_failure_def line_count_def)
qed

theorem streams_separated_witness:
  "fst (main no_add_double_platform None) = Exit 1 \<and>
   cout (snd (main no_add_double_platform None)) = [] \<and>
   line_count (cerr (snd (main no_add_double_platform None))) = 1 \<and>
   calls (trace (snd (main no_add_double_platform None))) = [] \<and>
   fst (main mymath_platform None) = Exit 0 \<and>
   cerr (snd (main mymath_platform None)) = [] \<and>
   line_count (cout (snd (main mymath_platform None))) = 2 \<and>
   call_results (trace (snd (main mymath_platform None))) = [Int_val 5, Double_val 4] \<and>
   values_written (cout (snd (main mymath_platform None))) = [Int_val 5, Double_val 4]"
proof -
  have a: "fst (main no_add_double_platform None) = Exit 1"
    by (simp add: no_add_double_run)
  have b: "fst (main mymath_platform None) = Exit 0"
    and r: "call_results (trace (snd (main mymath_platform None))) = [Int_val 5, Double_val 4]"
    by (simp_all add: mymath_run)
  from streams_separated [of no_add_double_platform None] a
  have "cout (snd (main no_add_double_platform None)) = [] \<and>
    line_count (cerr (snd (main no_add_double_platform None))) = 1 \<and>
    calls (trace (snd (main no_add_double_platform None))) = []"
    by blast
  moreover from streams_separated [of mymath_platform None] b r
  have "cerr (snd (main mymath_platform None)) = [] \<and>
    line_count (cout (snd (main mymath_platform None))) = 2 \<and>
    values_written (cout (snd (main mymath_platform None))) = [Int_val 5, Double_val 4]"
    by simp
  ultimately show ?thesis using a b r by simp
qed

end
